theory Spec2Isabelle
  imports Complex_Main "HOL-Library.Log_Nat"
begin

section \<open>JavaScript numbers\<close>

text \<open>
  The calculator computes with JavaScript numbers, that is IEEE 754 binary64 values.
  A finite value is kept as the rational it denotes: \<open>Num q\<close>, with \<open>Num 0\<close> for +0;
  the other values are -0, the two infinities and NaN. Every arithmetic operation
  computes the exact rational result and rounds it to the nearest binary64 value,
  ties to even, as ECMAScript prescribes for the Number type.
\<close>

datatype js_number = Num rat | NegZero | PosInfinity | NegInfinity | NaN

definition pow2 :: "int \<Rightarrow> rat" where
  "pow2 e = (if 0 \<le> e then 2 ^ nat e else 1 / 2 ^ nat (- e))"

text \<open>\<open>ilog2 q\<close> is the binary exponent of a positive rational: \<open>2^e \<le> q < 2^(e+1)\<close>.\<close>

definition ilog2 :: "rat \<Rightarrow> int" where
  "ilog2 q = (let (a, b) = quotient_of q; d = bitlen a - bitlen b
              in if pow2 d \<le> q then d else d - 1)"

definition round_ties_even :: "rat \<Rightarrow> int" where
  "round_ties_even x = (let f = \<lfloor>x\<rfloor>; r = x - of_int f
     in if r < 1 / 2 then f else if 1 / 2 < r then f + 1 else if even f then f else f + 1)"

text \<open>
  Rounding to binary64: 53 significant bits, exponents from -1022 to 1023, gradual
  underflow below \<open>2^-1022\<close> (the spacing there is \<open>2^-1074\<close>), overflow to an infinity
  from \<open>2^1024 - 2^970\<close> on. A result that rounds to zero keeps the sign of the exact value.
\<close>

definition round_double :: "rat \<Rightarrow> js_number" where
  "round_double q = (if q = 0 then Num 0 else
     let a = \<bar>q\<bar>; e = max (ilog2 a) (- 1022); u = pow2 (e - 52);
         m = round_ties_even (a / u)
     in if 1023 < e \<or> (e = 1023 \<and> m = 2 ^ 53) then (if q < 0 then NegInfinity else PosInfinity)
        else if m = 0 then (if q < 0 then NegZero else Num 0)
        else Num (sgn q * of_int m * u))"

text \<open>A decimal literal of the source such as \<open>0.05\<close> denotes the nearest binary64 value.\<close>

definition js_lit :: "rat \<Rightarrow> js_number" where
  "js_lit q = round_double q"

text \<open>A value is a binary64 value when rounding leaves it alone.\<close>

definition is_double :: "js_number \<Rightarrow> bool" where
  "is_double x = (case x of Num q \<Rightarrow> round_double q = Num q | _ \<Rightarrow> True)"

fun num_val :: "js_number \<Rightarrow> rat" where
  "num_val (Num q) = q"
| "num_val _ = 0"

fun sign_bit :: "js_number \<Rightarrow> bool" where
  "sign_bit (Num q) = (q < 0)"
| "sign_bit NegZero = True"
| "sign_bit NegInfinity = True"
| "sign_bit _ = False"

fun is_inf :: "js_number \<Rightarrow> bool" where
  "is_inf PosInfinity = True"
| "is_inf NegInfinity = True"
| "is_inf _ = False"

fun is_zero :: "js_number \<Rightarrow> bool" where
  "is_zero (Num q) = (q = 0)"
| "is_zero NegZero = True"
| "is_zero _ = False"

definition signed_inf :: "bool \<Rightarrow> js_number" where
  "signed_inf neg = (if neg then NegInfinity else PosInfinity)"

definition signed_zero :: "bool \<Rightarrow> js_number" where
  "signed_zero neg = (if neg then NegZero else Num 0)"

text \<open>Unary minus flips the sign, also of a zero.\<close>

fun js_neg :: "js_number \<Rightarrow> js_number" where
  "js_neg (Num q) = (if q = 0 then NegZero else Num (- q))"
| "js_neg NegZero = Num 0"
| "js_neg PosInfinity = NegInfinity"
| "js_neg NegInfinity = PosInfinity"
| "js_neg NaN = NaN"

text \<open>\<open>x + y\<close>: opposite infinities give NaN; an exact sum of zero is +0 unless both are -0.\<close>

definition js_add :: "js_number \<Rightarrow> js_number \<Rightarrow> js_number" where
  "js_add x y =
     (if x = NaN \<or> y = NaN then NaN
      else if is_inf x then (if is_inf y then (if x = y then x else NaN) else x)
      else if is_inf y then y
      else if x = NegZero \<and> y = NegZero then NegZero
      else let s = num_val x + num_val y in if s = 0 then Num 0 else round_double s)"

text \<open>\<open>x - y\<close> is \<open>x + (-y)\<close>.\<close>

definition js_sub :: "js_number \<Rightarrow> js_number \<Rightarrow> js_number" where
  "js_sub x y = js_add x (js_neg y)"

text \<open>\<open>x * y\<close>: infinity times zero is NaN; the sign of the result is the xor of the signs.\<close>

definition js_mul :: "js_number \<Rightarrow> js_number \<Rightarrow> js_number" where
  "js_mul x y =
     (if x = NaN \<or> y = NaN then NaN
      else if is_inf x \<or> is_inf y then
        (if is_zero x \<or> is_zero y then NaN else signed_inf (sign_bit x \<noteq> sign_bit y))
      else let p = num_val x * num_val y
           in if p = 0 then signed_zero (sign_bit x \<noteq> sign_bit y) else round_double p)"

text \<open>\<open>x / y\<close>: never raises; 0/0 and infinity/infinity are NaN, a nonzero value over zero
  is an infinity.\<close>

definition js_div :: "js_number \<Rightarrow> js_number \<Rightarrow> js_number" where
  "js_div x y =
     (if x = NaN \<or> y = NaN then NaN
      else if is_inf x then (if is_inf y then NaN else signed_inf (sign_bit x \<noteq> sign_bit y))
      else if is_inf y then signed_zero (sign_bit x \<noteq> sign_bit y)
      else if is_zero y then
        (if is_zero x then NaN else signed_inf (sign_bit x \<noteq> sign_bit y))
      else let q = num_val x / num_val y
           in if q = 0 then signed_zero (sign_bit x \<noteq> sign_bit y) else round_double q)"

text \<open>\<open>x < y\<close> is false as soon as one side is NaN; the two zeros compare equal.\<close>

definition js_less :: "js_number \<Rightarrow> js_number \<Rightarrow> bool" where
  "js_less x y =
     (if x = NaN \<or> y = NaN then False
      else if x = PosInfinity \<or> y = NegInfinity then False
      else if x = NegInfinity \<or> y = PosInfinity then True
      else num_val x < num_val y)"

text \<open>\<open>x > y\<close> is \<open>y < x\<close>.\<close>

definition js_greater :: "js_number \<Rightarrow> js_number \<Rightarrow> bool" where
  "js_greater x y = js_less y x"

text \<open>A number is falsy when it is +0, -0 or NaN; \<open>x || d\<close> is \<open>x\<close> unless \<open>x\<close> is falsy.\<close>

definition js_truthy :: "js_number \<Rightarrow> bool" where
  "js_truthy x = (if x = NaN then False else if is_zero x then False else True)"

definition js_or :: "js_number \<Rightarrow> js_number \<Rightarrow> js_number" where
  "js_or x d = (if js_truthy x then x else d)"

section \<open>The ROI calculator\<close>

subsection \<open>Parameters and presets\<close>

text \<open>
  The parameter object has the twelve properties of \<open>defaultValues\<close>. A computed-key
  write \<open>{...prev, [name]: v}\<close> with any other name adds a property, kept in
  \<open>other_props\<close>; nothing reads it.
\<close>

record calculator_values =
  num_partners :: js_number
  avg_tx_per_partner :: js_number
  int_build_cost_per_partner :: js_number
  int_maint_pct :: js_number
  api_fee_per_tx :: js_number
  compliance_cost_annual :: js_number
  error_penalty_rate :: js_number
  error_rate_legacy :: js_number
  error_rate_platform :: js_number
  onboard_days_legacy :: js_number
  onboard_days_platform :: js_number
  daily_revenue_per_partner :: js_number
  other_props :: "string \<rightharpoonup> js_number"

definition defaultValues :: calculator_values where
  "defaultValues =
     \<lparr> num_partners = Num 5,
       avg_tx_per_partner = Num 1000,
       int_build_cost_per_partner = Num 15000,
       int_maint_pct = Num 20,
       api_fee_per_tx = js_lit (5 / 100),
       compliance_cost_annual = Num 50000,
       error_penalty_rate = Num 15,
       error_rate_legacy = Num 3,
       error_rate_platform = js_lit (5 / 10),
       onboard_days_legacy = Num 30,
       onboard_days_platform = Num 5,
       daily_revenue_per_partner = Num 2000,
       other_props = Map.empty \<rparr>"

definition scenarios_conservative :: calculator_values where
  "scenarios_conservative =
     defaultValues \<lparr> num_partners := Num 3,
                     avg_tx_per_partner := Num 500,
                     daily_revenue_per_partner := Num 1000 \<rparr>"

definition scenarios_optimistic :: calculator_values where
  "scenarios_optimistic =
     defaultValues \<lparr> num_partners := Num 10,
                     avg_tx_per_partner := Num 2000,
                     daily_revenue_per_partner := Num 3000 \<rparr>"

subsection \<open>The computation\<close>

record costs =
  total :: js_number
  error_cost :: js_number

record roi_results =
  totalBenefit :: js_number
  costSaving :: js_number
  revenueSaving :: js_number
  riskSaving :: js_number

definition calculateLegacyCosts :: "calculator_values \<Rightarrow> costs" where
  "calculateLegacyCosts values =
     (let legacy_int_build = js_mul (num_partners values) (int_build_cost_per_partner values);
          legacy_int_maint = js_mul legacy_int_build (js_div (int_maint_pct values) (Num 100));
          legacy_api_fees =
            js_mul (js_mul (js_mul (num_partners values) (avg_tx_per_partner values)) (Num 12))
                   (api_fee_per_tx values);
          legacy_compliance = compliance_cost_annual values;
          legacy_error_cost =
            js_mul (js_mul (js_mul (js_mul (num_partners values) (avg_tx_per_partner values))
                                   (Num 12))
                           (js_div (error_rate_legacy values) (Num 100)))
                   (error_penalty_rate values)
      in \<lparr> total = js_add (js_add (js_add (js_add legacy_int_build legacy_int_maint)
                                           legacy_api_fees)
                                   legacy_compliance)
                           legacy_error_cost,
           error_cost = legacy_error_cost \<rparr>)"

definition calculatePlatformCosts :: "calculator_values \<Rightarrow> costs" where
  "calculatePlatformCosts values =
     (let platform_sub_fee = js_add (Num 10000) (js_mul (num_partners values) (Num 1000));
          platform_tx_fee =
            js_mul (js_mul (js_mul (num_partners values) (avg_tx_per_partner values)) (Num 12))
                   (js_lit (1 / 100));
          platform_compliance = js_mul (compliance_cost_annual values) (js_lit (4 / 10));
          platform_error_cost =
            js_mul (js_mul (js_mul (js_mul (num_partners values) (avg_tx_per_partner values))
                                   (Num 12))
                           (js_div (error_rate_platform values) (Num 100)))
                   (error_penalty_rate values)
      in \<lparr> total = js_add (js_add (js_add platform_sub_fee platform_tx_fee)
                                   platform_compliance)
                           platform_error_cost,
           error_cost = platform_error_cost \<rparr>)"

definition calculateBenefits :: "calculator_values \<Rightarrow> roi_results" where
  "calculateBenefits values =
     (let legacyCosts = calculateLegacyCosts values;
          platformCosts = calculatePlatformCosts values;
          onboarding_time_saved =
            js_sub (onboard_days_legacy values) (onboard_days_platform values);
          revenue_uplift =
            js_mul (js_mul (num_partners values) (daily_revenue_per_partner values))
                   onboarding_time_saved;
          cost_saving = js_sub (total legacyCosts) (total platformCosts);
          risk_saving = js_sub (error_cost legacyCosts) (error_cost platformCosts)
      in \<lparr> totalBenefit = js_add (js_add revenue_uplift cost_saving) risk_saving,
           costSaving = cost_saving,
           revenueSaving = revenue_uplift,
           riskSaving = risk_saving \<rparr>)"

text \<open>The parameter object with all twelve properties 0.\<close>

definition zeroValues :: calculator_values where
  "zeroValues =
     \<lparr> num_partners = Num 0,
       avg_tx_per_partner = Num 0,
       int_build_cost_per_partner = Num 0,
       int_maint_pct = Num 0,
       api_fee_per_tx = Num 0,
       compliance_cost_annual = Num 0,
       error_penalty_rate = Num 0,
       error_rate_legacy = Num 0,
       error_rate_platform = Num 0,
       onboard_days_legacy = Num 0,
       onboard_days_platform = Num 0,
       daily_revenue_per_partner = Num 0,
       other_props = Map.empty \<rparr>"

text \<open>
  Two parameter objects in which the platform onboards a partner in 30 days and the
  legacy process in 5: the default preset otherwise, and the same with no partner.
\<close>

definition slowPlatformValues :: calculator_values where
  "slowPlatformValues =
     defaultValues \<lparr> onboard_days_legacy := Num 5, onboard_days_platform := Num 30 \<rparr>"

definition noPartnerValues :: calculator_values where
  "noPartnerValues =
     defaultValues \<lparr> num_partners := Num 0,
                     onboard_days_legacy := Num 5, onboard_days_platform := Num 30 \<rparr>"

subsection \<open>Component state and event handlers\<close>

text \<open>
  The component keeps five state cells. Each handler is a function from the state
  before the event to the state after it.
\<close>

record calculator_state =
  isMenuOpen :: bool
  calculatorValues :: calculator_values
  scenario :: string
  roiResults :: roi_results
  selectedMetric :: "string option"

definition initial_state :: calculator_state where
  "initial_state =
     \<lparr> isMenuOpen = False,
       calculatorValues = defaultValues,
       scenario = ''default'',
       roiResults = \<lparr> totalBenefit = Num 0, costSaving = Num 0,
                      revenueSaving = Num 0, riskSaving = Num 0 \<rparr>,
       selectedMetric = None \<rparr>"

definition handleCalculate :: "calculator_state \<Rightarrow> calculator_state" where
  "handleCalculate s =
     (let results = calculateBenefits (calculatorValues s)
      in s \<lparr> roiResults := results \<rparr>)"

definition handleScenarioChange :: "string \<Rightarrow> calculator_state \<Rightarrow> calculator_state" where
  "handleScenarioChange newScenario s =
     (let s1 = s \<lparr> scenario := newScenario \<rparr>
      in if newScenario = ''conservative'' then s1 \<lparr> calculatorValues := scenarios_conservative \<rparr>
         else if newScenario = ''optimistic'' then s1 \<lparr> calculatorValues := scenarios_optimistic \<rparr>
         else s1 \<lparr> calculatorValues := defaultValues \<rparr>)"

text \<open>The write \<open>{...prev, [name]: v}\<close>: a copy of \<open>prev\<close> with the property \<open>name\<close> set.\<close>

definition set_prop :: "string \<Rightarrow> js_number \<Rightarrow> calculator_values \<Rightarrow> calculator_values" where
  "set_prop name v prev =
     (if name = ''num_partners'' then prev \<lparr> num_partners := v \<rparr>
      else if name = ''avg_tx_per_partner'' then prev \<lparr> avg_tx_per_partner := v \<rparr>
      else if name = ''int_build_cost_per_partner'' then prev \<lparr> int_build_cost_per_partner := v \<rparr>
      else if name = ''int_maint_pct'' then prev \<lparr> int_maint_pct := v \<rparr>
      else if name = ''api_fee_per_tx'' then prev \<lparr> api_fee_per_tx := v \<rparr>
      else if name = ''compliance_cost_annual'' then prev \<lparr> compliance_cost_annual := v \<rparr>
      else if name = ''error_penalty_rate'' then prev \<lparr> error_penalty_rate := v \<rparr>
      else if name = ''error_rate_legacy'' then prev \<lparr> error_rate_legacy := v \<rparr>
      else if name = ''error_rate_platform'' then prev \<lparr> error_rate_platform := v \<rparr>
      else if name = ''onboard_days_legacy'' then prev \<lparr> onboard_days_legacy := v \<rparr>
      else if name = ''onboard_days_platform'' then prev \<lparr> onboard_days_platform := v \<rparr>
      else if name = ''daily_revenue_per_partner'' then prev \<lparr> daily_revenue_per_partner := v \<rparr>
      else prev \<lparr> other_props := (other_props prev)(name \<mapsto> v) \<rparr>)"

text \<open>The read \<open>obj[name]\<close>, used to state what a write changed.\<close>

definition get_prop :: "string \<Rightarrow> calculator_values \<Rightarrow> js_number option" where
  "get_prop name obj =
     (if name = ''num_partners'' then Some (num_partners obj)
      else if name = ''avg_tx_per_partner'' then Some (avg_tx_per_partner obj)
      else if name = ''int_build_cost_per_partner'' then Some (int_build_cost_per_partner obj)
      else if name = ''int_maint_pct'' then Some (int_maint_pct obj)
      else if name = ''api_fee_per_tx'' then Some (api_fee_per_tx obj)
      else if name = ''compliance_cost_annual'' then Some (compliance_cost_annual obj)
      else if name = ''error_penalty_rate'' then Some (error_penalty_rate obj)
      else if name = ''error_rate_legacy'' then Some (error_rate_legacy obj)
      else if name = ''error_rate_platform'' then Some (error_rate_platform obj)
      else if name = ''onboard_days_legacy'' then Some (onboard_days_legacy obj)
      else if name = ''onboard_days_platform'' then Some (onboard_days_platform obj)
      else if name = ''daily_revenue_per_partner'' then Some (daily_revenue_per_partner obj)
      else other_props obj name)"

text \<open>
  \<open>handleInputChange\<close> reads the name and the text of the input control from the event.
  \<open>parseFloat\<close> is the built-in of the language, taken as a parameter: it maps a text
  to a number, NaN when the text does not start with a number.
\<close>

definition handleInputChange ::
  "(string \<Rightarrow> js_number) \<Rightarrow> string \<Rightarrow> string \<Rightarrow> calculator_state \<Rightarrow> calculator_state" where
  "handleInputChange parseFloat name value s =
     (let s1 = s \<lparr> calculatorValues :=
                     set_prop name (js_or (parseFloat value) (Num 0)) (calculatorValues s) \<rparr>
      in s1 \<lparr> scenario := ''custom'' \<rparr>)"

text \<open>
  The click handler of a metric card, written in place in the markup:
  \<open>onClick={() => setSelectedMetric(selectedMetric === key ? null : key)}\<close>. The
  specification calls it \<open>toggleMetricDetail\<close>.
\<close>

definition toggleMetricDetail :: "string \<Rightarrow> calculator_state \<Rightarrow> calculator_state" where
  "toggleMetricDetail key s =
     s \<lparr> selectedMetric := (if selectedMetric s = Some key then None else Some key) \<rparr>"

subsection \<open>What is rendered of the results\<close>

text \<open>The keys of \<open>metricExplanations\<close>, in the order of the object.\<close>

definition metric_keys :: "string list" where
  "metric_keys = [''totalBenefit'', ''costSaving'', ''revenueSaving'', ''riskSaving'']"

definition result_of_key :: "roi_results \<Rightarrow> string \<Rightarrow> js_number option" where
  "result_of_key r key =
     (if key = ''totalBenefit'' then Some (totalBenefit r)
      else if key = ''costSaving'' then Some (costSaving r)
      else if key = ''revenueSaving'' then Some (revenueSaving r)
      else if key = ''riskSaving'' then Some (riskSaving r)
      else None)"

text \<open>
  A rendered card (the panel of one metric): its key, the figure it displays and
  whether its explanation is expanded. The grid \<open>{roiResults.totalBenefit > 0 && (...)}\<close>
  holds one card for each metric key, or nothing at all.
\<close>

record metric_card =
  card_key :: string
  card_value :: "js_number option"
  card_expanded :: bool

definition results_grid :: "calculator_state \<Rightarrow> metric_card list" where
  "results_grid s =
     (if js_greater (totalBenefit (roiResults s)) (Num 0)
      then map (\<lambda>key. \<lparr> card_key = key,
                         card_value = result_of_key (roiResults s) key,
                         card_expanded = (selectedMetric s = Some key) \<rparr>) metric_keys
      else [])"

section \<open>Properties of the arithmetic\<close>

lemma js_add_commute: "js_add x y = js_add y x"
  by (cases x; cases y; simp add: js_add_def add.commute)

subsection \<open>Powers of two\<close>

lemma pow2_powi: "pow2 e = 2 powi e"
  by (simp add: pow2_def power_int_def field_simps)

lemma pow2_pos: "0 < pow2 e"
  by (simp add: pow2_powi)

lemma pow2_add: "pow2 (a + b) = pow2 a * pow2 b"
  by (simp add: pow2_powi power_int_add)

lemma pow2_diff: "pow2 (a - b) = pow2 a / pow2 b"
  by (simp add: pow2_powi power_int_diff)

lemma pow2_mono: "a \<le> b \<Longrightarrow> pow2 a \<le> pow2 b"
  by (simp add: pow2_powi power_int_increasing)

lemma pow2_less_imp: "pow2 a < pow2 b \<Longrightarrow> a < b"
  using pow2_mono [of b a] by (cases "a < b") simp_all

lemma pow2_nat: "0 \<le> e \<Longrightarrow> pow2 e = of_int (2 ^ nat e)"
  by (simp add: pow2_def)

subsection \<open>The binary exponent\<close>

lemma ilog2_bounds:
  assumes "0 < q"
  shows "pow2 (ilog2 q) \<le> q" and "q < pow2 (ilog2 q + 1)"
proof -
  obtain a b where ab: "quotient_of q = (a, b)"
    by (cases "quotient_of q")
  then have b: "0 < b" and q: "q = of_int a / of_int b"
    by (simp_all add: quotient_of_denom_pos quotient_of_div)
  from assms q b have a: "0 < a"
    by (simp add: zero_less_divide_iff)
  define d where "d = bitlen a - bitlen b"
  have la: "1 \<le> bitlen a" and lb: "1 \<le> bitlen b"
    using a b bitlen_eq_zero_iff [of a] bitlen_eq_zero_iff [of b]
      bitlen_nonneg [of a] bitlen_nonneg [of b] by linarith+
  have a_lo: "pow2 (bitlen a - 1) \<le> of_int a"
    using bitlen_bounds [OF a] la by (simp add: pow2_nat)
  have a_hi: "of_int a < pow2 (bitlen a)"
    using bitlen_bounds [OF a] la by (simp add: pow2_nat)
  have b_lo: "pow2 (bitlen b - 1) \<le> of_int b"
    using bitlen_bounds [OF b] lb by (simp add: pow2_nat)
  have b_hi: "of_int b < pow2 (bitlen b)"
    using bitlen_bounds [OF b] lb by (simp add: pow2_nat)
  have "pow2 (d - 1) = pow2 (bitlen a - 1) / pow2 (bitlen b)"
    by (simp add: d_def pow2_diff [symmetric] algebra_simps)
  also have "\<dots> \<le> of_int a / of_int b"
    using a_lo b_hi b pow2_pos [of "bitlen a - 1"] by (intro frac_le) simp_all
  finally have lo: "pow2 (d - 1) \<le> q"
    by (simp add: q)
  have "of_int a / of_int b < pow2 (bitlen a) / pow2 (bitlen b - 1)"
    using a_hi b_lo a pow2_pos [of "bitlen b - 1"] by (intro frac_less) simp_all
  also have "\<dots> = pow2 (d + 1)"
    by (simp add: d_def pow2_diff [symmetric] algebra_simps)
  finally have hi: "q < pow2 (d + 1)"
    by (simp add: q)
  have il: "ilog2 q = (if pow2 d \<le> q then d else d - 1)"
    by (simp add: ilog2_def ab d_def Let_def)
  show "pow2 (ilog2 q) \<le> q"
    using lo by (simp add: il)
  show "q < pow2 (ilog2 q + 1)"
    using hi by (simp add: il)
qed

subsection \<open>Rounding to an integer\<close>

lemma round_ties_even_ge: "of_int n \<le> x \<Longrightarrow> n \<le> round_ties_even x"
proof -
  assume "of_int n \<le> x"
  then have "n \<le> \<lfloor>x\<rfloor>"
    by (simp add: le_floor_iff)
  then show ?thesis
    by (simp add: round_ties_even_def Let_def)
qed

subsection \<open>Rounding to binary64\<close>

lemma round_double_nonzero:
  assumes "q \<noteq> 0"
  shows "round_double q =
     (if 1023 < max (ilog2 \<bar>q\<bar>) (- 1022)
         \<or> (max (ilog2 \<bar>q\<bar>) (- 1022) = 1023
             \<and> round_ties_even (\<bar>q\<bar> / pow2 (max (ilog2 \<bar>q\<bar>) (- 1022) - 52)) = 2 ^ 53)
      then (if q < 0 then NegInfinity else PosInfinity)
      else if round_ties_even (\<bar>q\<bar> / pow2 (max (ilog2 \<bar>q\<bar>) (- 1022) - 52)) = 0
        then (if q < 0 then NegZero else Num 0)
        else Num (sgn q * of_int (round_ties_even (\<bar>q\<bar> / pow2 (max (ilog2 \<bar>q\<bar>) (- 1022) - 52)))
                   * pow2 (max (ilog2 \<bar>q\<bar>) (- 1022) - 52)))"
  using assms by (simp add: round_double_def Let_def)

text \<open>The smallest positive binary64 value.\<close>

lemma ulp_ge_min: "- 1022 \<le> e \<Longrightarrow> pow2 (- 1074) \<le> pow2 (e - 52)"
  by (rule pow2_mono) simp

text \<open>The exact value is at least one unit in the last place when it is at least the
  smallest positive binary64 value.\<close>

lemma ulp_le_abs:
  assumes "pow2 (- 1074) \<le> a"
  shows "pow2 (max (ilog2 a) (- 1022) - 52) \<le> a"
proof (cases "- 1022 \<le> ilog2 a")
  case True
  have "0 < a"
    using assms pow2_pos [of "- 1074"] by linarith
  then have "pow2 (ilog2 a) \<le> a"
    by (rule ilog2_bounds)
  moreover have "pow2 (ilog2 a - 52) \<le> pow2 (ilog2 a)"
    by (rule pow2_mono) simp
  ultimately show ?thesis
    using True by (simp add: max_def)
next
  case False
  then show ?thesis
    using assms by (simp add: max_def)
qed

lemma round_double_negative:
  assumes "q < 0"
  shows "round_double q = NegInfinity \<or> round_double q = NegZero
         \<or> (\<exists>r. round_double q = Num r \<and> r < 0)"
proof -
  let ?u = "pow2 (max (ilog2 \<bar>q\<bar>) (- 1022) - 52)"
  let ?m = "round_ties_even (\<bar>q\<bar> / ?u)"
  have u: "0 < ?u"
    by (rule pow2_pos)
  have "of_int 0 \<le> \<bar>q\<bar> / ?u"
    using u by simp
  then have m: "0 \<le> ?m"
    by (rule round_ties_even_ge)
  have "sgn q * of_int ?m * ?u < 0" if "?m \<noteq> 0"
  proof -
    from that m have "0 < ?m" by simp
    then have "0 < of_int ?m * ?u"
      using u by simp
    then show ?thesis
      using assms by (simp add: sgn_if algebra_simps)
  qed
  then show ?thesis
    using assms by (simp add: round_double_nonzero)
qed

lemma round_double_below_neg_min:
  assumes "q \<le> - pow2 (- 1074)"
  shows "round_double q = NegInfinity
         \<or> (\<exists>r. round_double q = Num r \<and> r \<le> - pow2 (- 1074))"
proof -
  let ?e = "max (ilog2 \<bar>q\<bar>) (- 1022)"
  let ?u = "pow2 (?e - 52)"
  let ?m = "round_ties_even (\<bar>q\<bar> / ?u)"
  have neg: "q < 0"
    using assms pow2_pos [of "- 1074"] by linarith
  have u: "0 < ?u"
    by (rule pow2_pos)
  have "pow2 (- 1074) \<le> \<bar>q\<bar>"
    using assms neg by simp
  then have "?u \<le> \<bar>q\<bar>"
    by (rule ulp_le_abs)
  then have "of_int 1 \<le> \<bar>q\<bar> / ?u"
    using u by (simp add: le_divide_eq)
  then have m: "1 \<le> ?m"
    by (rule round_ties_even_ge)
  have "pow2 (- 1074) \<le> ?u"
    by (rule ulp_ge_min) simp
  moreover have "?u \<le> of_int ?m * ?u"
    using m u by (simp add: mult_le_cancel_right1)
  ultimately have "sgn q * of_int ?m * ?u \<le> - pow2 (- 1074)"
    using neg by (simp add: sgn_if algebra_simps)
  then show ?thesis
    using neg m by (simp add: round_double_nonzero)
qed

lemma round_double_at_least_one:
  assumes "1 \<le> q"
  shows "round_double q = PosInfinity \<or> (\<exists>r. round_double q = Num r \<and> 1 \<le> r)"
proof -
  let ?u = "pow2 (ilog2 q - 52)"
  let ?m = "round_ties_even (q / ?u)"
  have pos: "0 < q" and abs: "\<bar>q\<bar> = q"
    using assms by simp_all
  have u: "0 < ?u"
    by (rule pow2_pos)
  have "pow2 0 < pow2 (ilog2 q + 1)"
    using ilog2_bounds(2) [OF pos] assms by (simp add: pow2_def)
  then have "0 < ilog2 q + 1"
    by (rule pow2_less_imp)
  then have e0: "0 \<le> ilog2 q"
    by simp
  then have e: "max (ilog2 q) (- 1022) = ilog2 q"
    by simp
  have "pow2 (ilog2 q) \<le> q"
    by (rule ilog2_bounds(1) [OF pos])
  moreover have split: "pow2 (ilog2 q) = pow2 52 * ?u"
    by (simp add: pow2_add [symmetric])
  ultimately have "pow2 52 * ?u \<le> q"
    by simp
  then have "of_int (2 ^ 52) \<le> q / ?u"
    using u by (simp add: le_divide_eq pow2_def)
  then have m: "2 ^ 52 \<le> ?m"
    by (rule round_ties_even_ge)
  then have "(of_int (2 ^ 52) :: rat) \<le> of_int ?m"
    by (simp only: of_int_le_iff)
  then have "pow2 52 \<le> of_int ?m"
    by (simp add: pow2_def)
  then have "pow2 52 * ?u \<le> of_int ?m * ?u"
    using u by (simp only: mult_le_cancel_right) simp
  moreover have "1 \<le> pow2 (ilog2 q)"
    using pow2_mono [OF e0] by (simp add: pow2_def)
  ultimately have "1 \<le> of_int ?m * ?u"
    by (simp only: split)
  moreover have "?m \<noteq> 0"
    using m by simp
  ultimately show ?thesis
    using pos by (simp add: round_double_nonzero abs e sgn_if)
qed

subsection \<open>Binary64 values lie on the grid of spacing \<open>2^-1074\<close>\<close>

lemma double_on_grid:
  assumes "is_double (Num q)"
  shows "\<exists>k::int. q = of_int k * pow2 (- 1074)"
proof (cases "q = 0")
  case True
  then have "q = of_int 0 * pow2 (- 1074)" by simp
  then show ?thesis ..
next
  case False
  let ?e = "max (ilog2 \<bar>q\<bar>) (- 1022)"
  let ?u = "pow2 (?e - 52)"
  let ?m = "round_ties_even (\<bar>q\<bar> / ?u)"
  from assms have "round_double q = Num q"
    by (simp add: is_double_def)
  then have q: "q = sgn q * of_int ?m * ?u"
    using False by (simp add: round_double_nonzero split: if_splits)
  have "?u = pow2 (?e + 1022) * pow2 (- 1074)"
    by (simp add: pow2_add [symmetric])
  also have "pow2 (?e + 1022) = of_int (2 ^ nat (?e + 1022))"
    by (rule pow2_nat) simp
  finally have u: "?u = of_int (2 ^ nat (?e + 1022)) * pow2 (- 1074)" .
  have "sgn q = of_int (if q < 0 then - 1 else 1)"
    using False by (simp add: sgn_if)
  then have "q = of_int ((if q < 0 then - 1 else 1) * ?m * 2 ^ nat (?e + 1022)) * pow2 (- 1074)"
    using q u by (simp only: of_int_mult mult.assoc)
  then show ?thesis ..
qed

lemma grid_less_gap:
  assumes "p = of_int k * pow2 (- 1074)" "q = of_int l * pow2 (- 1074)" "p < q"
  shows "p - q \<le> - pow2 (- 1074)"
proof -
  have g: "0 < pow2 (- 1074)"
    by (rule pow2_pos)
  from assms g have "k < l"
    by (simp add: mult_less_cancel_right)
  then have "k - l \<le> - 1"
    by simp
  then have "(of_int (k - l) :: rat) \<le> of_int (- 1)"
    by (simp only: of_int_le_iff)
  then have "of_int (k - l) * pow2 (- 1074) \<le> of_int (- 1) * pow2 (- 1074)"
    using g by (simp only: mult_le_cancel_right) simp
  then show ?thesis
    by (simp add: assms algebra_simps)
qed

lemma finite_double_on_grid:
  assumes "is_double x" "x \<noteq> NaN" "x \<noteq> PosInfinity" "x \<noteq> NegInfinity"
  shows "\<exists>k::int. num_val x = of_int k * pow2 (- 1074)"
proof (cases x)
  case (Num q)
  then show ?thesis using assms double_on_grid by simp
next
  case NegZero
  then have "num_val x = of_int 0 * pow2 (- 1074)" by simp
  then show ?thesis ..
qed (use assms in simp_all)

subsection \<open>Signs of differences and products\<close>

lemma js_sub_finite:
  assumes "x \<noteq> NaN" "\<not> is_inf x" "y \<noteq> NaN" "\<not> is_inf y" "num_val x \<noteq> num_val y"
  shows "js_sub x y = round_double (num_val x - num_val y)"
  using assms by (cases x; cases y) (simp_all add: js_sub_def js_add_def)

lemma js_sub_less:
  assumes "is_double x" "is_double y" "js_less x y"
  shows "js_sub x y = NegInfinity \<or> (\<exists>r. js_sub x y = Num r \<and> r \<le> - pow2 (- 1074))"
proof (cases "is_inf x \<or> is_inf y")
  case True
  then show ?thesis
    using assms(3) by (cases x; cases y) (simp_all add: js_less_def js_sub_def js_add_def)
next
  case False
  from assms(3) have nan: "x \<noteq> NaN" "y \<noteq> NaN"
    by (auto simp add: js_less_def)
  from False have fin: "\<not> is_inf x" "\<not> is_inf y" "x \<noteq> PosInfinity" "x \<noteq> NegInfinity"
      "y \<noteq> PosInfinity" "y \<noteq> NegInfinity"
    by auto
  from assms(3) nan fin have less: "num_val x < num_val y"
    by (simp add: js_less_def)
  obtain k l where "num_val x = of_int k * pow2 (- 1074)" "num_val y = of_int l * pow2 (- 1074)"
    using finite_double_on_grid [OF assms(1) nan(1) fin(3,4)]
      finite_double_on_grid [OF assms(2) nan(2) fin(5,6)] by blast
  then have "num_val x - num_val y \<le> - pow2 (- 1074)"
    using less by (rule grid_less_gap)
  then have "round_double (num_val x - num_val y) = NegInfinity
      \<or> (\<exists>r. round_double (num_val x - num_val y) = Num r \<and> r \<le> - pow2 (- 1074))"
    by (rule round_double_below_neg_min)
  moreover have "js_sub x y = round_double (num_val x - num_val y)"
    using nan fin less by (intro js_sub_finite) simp_all
  ultimately show ?thesis
    by simp
qed

lemma below_neg_min_less_zero:
  assumes "t = NegInfinity \<or> (\<exists>r. t = Num r \<and> r \<le> - pow2 (- 1074))"
  shows "js_less t (Num 0)"
  using assms pow2_pos [of "- 1074"] by (auto simp add: js_less_def)

lemma js_mul_pos_neg:
  assumes "js_less (Num 0) p" "js_less t (Num 0)"
  shows "js_less (js_mul p t) (Num 0) \<or> js_mul p t = NegZero"
proof (cases "is_inf p \<or> is_inf t")
  case True
  then show ?thesis
    using assms
    by (cases p; cases t) (simp_all add: js_less_def js_mul_def signed_inf_def)
next
  case False
  from assms have nan: "p \<noteq> NaN" "t \<noteq> NaN"
    by (auto simp add: js_less_def)
  from assms nan False have sgn: "0 < num_val p" "num_val t < 0"
    by (cases p; cases t; simp add: js_less_def)+
  then have neg: "num_val p * num_val t < 0"
    by (simp add: mult_pos_neg)
  then have mul: "js_mul p t = round_double (num_val p * num_val t)"
    using nan False sgn by (simp add: js_mul_def)
  from round_double_negative [OF neg] show ?thesis
    unfolding mul by (auto simp add: js_less_def)
qed

lemma js_mul_at_least_one_below_neg_min:
  assumes "p = PosInfinity \<or> (\<exists>a. p = Num a \<and> 1 \<le> a)"
    and "t = NegInfinity \<or> (\<exists>r. t = Num r \<and> r \<le> - pow2 (- 1074))"
  shows "js_less (js_mul p t) (Num 0)"
proof (cases "is_inf p \<or> is_inf t")
  case True
  then show ?thesis
    using assms pow2_pos [of "- 1074"]
    by (cases p; cases t) (auto simp add: js_less_def js_mul_def signed_inf_def)
next
  case False
  with assms obtain a r where p: "p = Num a" "1 \<le> a" and t: "t = Num r" "r \<le> - pow2 (- 1074)"
    by auto
  have g: "0 < pow2 (- 1074)"
    by (rule pow2_pos)
  have "a * r \<le> 1 * r"
    using p(2) t(2) g by (intro mult_right_mono_neg) simp_all
  then have le: "a * r \<le> - pow2 (- 1074)"
    using t(2) by simp
  then have "a * r \<noteq> 0"
    using g by linarith
  then have "js_mul p t = round_double (a * r)"
    by (simp add: js_mul_def p t)
  with round_double_below_neg_min [OF le] show ?thesis
    by (intro below_neg_min_less_zero) simp
qed

lemma js_mul_at_least_one:
  assumes "1 \<le> a" "1 \<le> b"
  shows "js_mul (Num a) (Num b) = PosInfinity \<or> (\<exists>c. js_mul (Num a) (Num b) = Num c \<and> 1 \<le> c)"
proof -
  have "1 * 1 \<le> a * b"
    using assms by (intro mult_mono) simp_all
  then have ab: "1 \<le> a * b"
    by simp
  then have "js_mul (Num a) (Num b) = round_double (a * b)"
    by (auto simp add: js_mul_def)
  with round_double_at_least_one [OF ab] show ?thesis
    by simp
qed

subsection \<open>The operations of the run on the default preset, one by one\<close>

lemma mul_5_15000: "js_mul (Num 5) (Num 15000) = Num 75000" by code_simp
lemma mul_maint: "js_mul (Num 75000) (js_div (Num 20) (Num 100)) = Num 15000" by code_simp
lemma mul_5_1000: "js_mul (Num 5) (Num 1000) = Num 5000" by code_simp
lemma mul_5000_12: "js_mul (Num 5000) (Num 12) = Num 60000" by code_simp
lemma mul_api_fee: "js_mul (Num 60000) (js_lit (5 / 100)) = Num 3000" by code_simp
lemma mul_err_legacy: "js_mul (Num 60000) (js_div (Num 3) (Num 100)) = Num 1800" by code_simp
lemma mul_1800_15: "js_mul (Num 1800) (Num 15) = Num 27000" by code_simp
lemma add_75000_15000: "js_add (Num 75000) (Num 15000) = Num 90000" by code_simp
lemma add_90000_3000: "js_add (Num 90000) (Num 3000) = Num 93000" by code_simp
lemma add_93000_50000: "js_add (Num 93000) (Num 50000) = Num 143000" by code_simp
lemma add_143000_27000: "js_add (Num 143000) (Num 27000) = Num 170000" by code_simp
lemma add_10000_5000: "js_add (Num 10000) (Num 5000) = Num 15000" by code_simp
lemma mul_tx_fee: "js_mul (Num 60000) (js_lit (1 / 100)) = Num 600" by code_simp
lemma mul_compliance: "js_mul (Num 50000) (js_lit (4 / 10)) = Num 20000" by code_simp
lemma mul_err_platform:
  "js_mul (Num 60000) (js_div (js_lit (5 / 10)) (Num 100)) = Num 300" by code_simp
lemma mul_300_15: "js_mul (Num 300) (Num 15) = Num 4500" by code_simp
lemma add_15000_600: "js_add (Num 15000) (Num 600) = Num 15600" by code_simp
lemma add_15600_20000: "js_add (Num 15600) (Num 20000) = Num 35600" by code_simp
lemma add_35600_4500: "js_add (Num 35600) (Num 4500) = Num 40100" by code_simp
lemma sub_30_5: "js_sub (Num 30) (Num 5) = Num 25" by code_simp
lemma mul_5_2000: "js_mul (Num 5) (Num 2000) = Num 10000" by code_simp
lemma mul_10000_25: "js_mul (Num 10000) (Num 25) = Num 250000" by code_simp
lemma sub_170000_40100: "js_sub (Num 170000) (Num 40100) = Num 129900" by code_simp
lemma sub_27000_4500: "js_sub (Num 27000) (Num 4500) = Num 22500" by code_simp
lemma add_250000_129900: "js_add (Num 250000) (Num 129900) = Num 379900" by code_simp
lemma add_379900_22500: "js_add (Num 379900) (Num 22500) = Num 402400" by code_simp

lemma legacy_default:
  "calculateLegacyCosts defaultValues = \<lparr> total = Num 170000, error_cost = Num 27000 \<rparr>"
  by (simp only: calculateLegacyCosts_def defaultValues_def Let_def
        calculator_values.select_convs mul_5_15000 mul_maint mul_5_1000 mul_5000_12
        mul_api_fee mul_err_legacy mul_1800_15 add_75000_15000 add_90000_3000
        add_93000_50000 add_143000_27000)

lemma platform_default:
  "calculatePlatformCosts defaultValues = \<lparr> total = Num 40100, error_cost = Num 4500 \<rparr>"
  by (simp only: calculatePlatformCosts_def defaultValues_def Let_def
        calculator_values.select_convs mul_5_1000 mul_5000_12 add_10000_5000 mul_tx_fee
        mul_compliance mul_err_platform mul_300_15 add_15000_600 add_15600_20000
        add_35600_4500)

lemma benefits_default:
  "calculateBenefits defaultValues =
    \<lparr> totalBenefit = Num 402400, costSaving = Num 129900,
      revenueSaving = Num 250000, riskSaving = Num 22500 \<rparr>"
  unfolding calculateBenefits_def Let_def legacy_default platform_default
  by (simp only: defaultValues_def
       calculator_values.select_convs costs.select_convs sub_30_5 mul_5_2000 mul_10000_25
       sub_170000_40100 sub_27000_4500 add_250000_129900 add_379900_22500)

subsection \<open>The operations of the run on all-zero parameters\<close>

lemma mul_0_0: "js_mul (Num 0) (Num 0) = Num 0" by code_simp
lemma mul_0_div: "js_mul (Num 0) (js_div (Num 0) (Num 100)) = Num 0" by code_simp
lemma mul_0_12: "js_mul (Num 0) (Num 12) = Num 0" by code_simp
lemma mul_0_1000: "js_mul (Num 0) (Num 1000) = Num 0" by code_simp
lemma mul_0_tx_fee: "js_mul (Num 0) (js_lit (1 / 100)) = Num 0" by code_simp
lemma mul_0_compliance: "js_mul (Num 0) (js_lit (4 / 10)) = Num 0" by code_simp
lemma add_0_0: "js_add (Num 0) (Num 0) = Num 0" by code_simp
lemma add_10000_0: "js_add (Num 10000) (Num 0) = Num 10000" by code_simp
lemma sub_0_0: "js_sub (Num 0) (Num 0) = Num 0" by code_simp
lemma sub_0_10000: "js_sub (Num 0) (Num 10000) = Num (- 10000)" by code_simp
lemma add_0_neg_10000: "js_add (Num 0) (Num (- 10000)) = Num (- 10000)" by code_simp
lemma add_neg_10000_0: "js_add (Num (- 10000)) (Num 0) = Num (- 10000)" by code_simp

lemmas zero_run =
  mul_0_0 mul_0_div mul_0_12 mul_0_1000 mul_0_tx_fee mul_0_compliance add_0_0 add_10000_0
  sub_0_0 sub_0_10000 add_0_neg_10000 add_neg_10000_0

lemma benefits_zeroValues:
  "calculateBenefits zeroValues =
    \<lparr> totalBenefit = Num (- 10000), costSaving = Num (- 10000),
      revenueSaving = Num 0, riskSaving = Num 0 \<rparr>"
  by (simp only: calculateBenefits_def calculateLegacyCosts_def calculatePlatformCosts_def
        Let_def costs.select_convs zeroValues_def calculator_values.select_convs zero_run)

subsection \<open>The operations of two runs with a platform that onboards more slowly\<close>

lemma double_5: "is_double (Num 5)" by code_simp
lemma double_30: "is_double (Num 30)" by code_simp
lemma less_5_30: "js_less (Num 5) (Num 30)" by code_simp
lemma sub_5_30: "js_sub (Num 5) (Num 30) = Num (- 25)" by code_simp
lemma mul_10000_neg_25: "js_mul (Num 10000) (Num (- 25)) = Num (- 250000)" by code_simp
lemma add_neg_250000_129900: "js_add (Num (- 250000)) (Num 129900) = Num (- 120100)" by code_simp
lemma add_neg_120100_22500: "js_add (Num (- 120100)) (Num 22500) = Num (- 97600)" by code_simp
lemma mul_0_2000: "js_mul (Num 0) (Num 2000) = Num 0" by code_simp
lemma mul_0_neg_25: "js_mul (Num 0) (Num (- 25)) = NegZero" by code_simp
lemma not_less_NegZero_0: "\<not> js_less NegZero (Num 0)" by code_simp
lemma less_neg_25_0: "js_less (Num (- 25)) (Num 0)" by code_simp

section \<open>Properties of the property reads and writes\<close>

lemma known_name_cases:
  assumes "name = ''num_partners'' \<Longrightarrow> P" "name = ''avg_tx_per_partner'' \<Longrightarrow> P"
    "name = ''int_build_cost_per_partner'' \<Longrightarrow> P" "name = ''int_maint_pct'' \<Longrightarrow> P"
    "name = ''api_fee_per_tx'' \<Longrightarrow> P" "name = ''compliance_cost_annual'' \<Longrightarrow> P"
    "name = ''error_penalty_rate'' \<Longrightarrow> P" "name = ''error_rate_legacy'' \<Longrightarrow> P"
    "name = ''error_rate_platform'' \<Longrightarrow> P" "name = ''onboard_days_legacy'' \<Longrightarrow> P"
    "name = ''onboard_days_platform'' \<Longrightarrow> P" "name = ''daily_revenue_per_partner'' \<Longrightarrow> P"
    "name \<noteq> ''num_partners'' \<and> name \<noteq> ''avg_tx_per_partner'' \<and>
     name \<noteq> ''int_build_cost_per_partner'' \<and> name \<noteq> ''int_maint_pct'' \<and>
     name \<noteq> ''api_fee_per_tx'' \<and> name \<noteq> ''compliance_cost_annual'' \<and>
     name \<noteq> ''error_penalty_rate'' \<and> name \<noteq> ''error_rate_legacy'' \<and>
     name \<noteq> ''error_rate_platform'' \<and> name \<noteq> ''onboard_days_legacy'' \<and>
     name \<noteq> ''onboard_days_platform'' \<and> name \<noteq> ''daily_revenue_per_partner'' \<Longrightarrow> P"
  shows P
  using assms by blast

lemma get_set_prop_same: "get_prop name (set_prop name v obj) = Some v"
  by (cases name rule: known_name_cases) (simp_all add: set_prop_def get_prop_def)

lemma get_set_prop_other:
  assumes "n \<noteq> name"
  shows "get_prop n (set_prop name v obj) = get_prop n obj"
proof (cases name rule: known_name_cases)
  case 13
  then have "set_prop name v obj = obj \<lparr> other_props := (other_props obj)(name \<mapsto> v) \<rparr>"
    by (simp add: set_prop_def)
  then show ?thesis using assms by (simp add: get_prop_def)
qed (use assms in \<open>simp_all add: set_prop_def get_prop_def\<close>)

lemma js_or_zero_cases:
  "js_or x (Num 0) = (if x = NaN then Num 0 else if is_zero x then Num 0 else x)"
  by (simp add: js_or_def js_truthy_def)

section \<open>Theorems about the computation\<close>

text \<open>
  Claim C1, as amended. For every parameter object whose twelve fields are all 0,
  \<open>calculateBenefits\<close> returns \<open>revenueSaving = 0\<close> and \<open>riskSaving = 0\<close>, but
  \<open>costSaving = -10000\<close> and \<open>totalBenefit = -10000\<close>: the platform subscription fee
  \<open>10000 + num_partners * 1000\<close> has a fixed part that is charged with no partner at all.
\<close>

theorem calculateBenefits_all_zero:
  assumes "num_partners v = Num 0" "avg_tx_per_partner v = Num 0"
    "int_build_cost_per_partner v = Num 0" "int_maint_pct v = Num 0"
    "api_fee_per_tx v = Num 0" "compliance_cost_annual v = Num 0"
    "error_penalty_rate v = Num 0" "error_rate_legacy v = Num 0"
    "error_rate_platform v = Num 0" "onboard_days_legacy v = Num 0"
    "onboard_days_platform v = Num 0" "daily_revenue_per_partner v = Num 0"
  shows "calculateBenefits v =
    \<lparr> totalBenefit = Num (- 10000), costSaving = Num (- 10000),
      revenueSaving = Num 0, riskSaving = Num 0 \<rparr>"
  by (simp only: calculateBenefits_def calculateLegacyCosts_def calculatePlatformCosts_def
        Let_def costs.select_convs assms zero_run)

text \<open>Claim C1, witness: the amended statement at \<open>zeroValues\<close>.\<close>

theorem calculateBenefits_all_zero_witness:
  "calculateBenefits zeroValues =
    \<lparr> totalBenefit = Num (- 10000), costSaving = Num (- 10000),
      revenueSaving = Num 0, riskSaving = Num 0 \<rparr>"
  by (rule calculateBenefits_all_zero)
     (simp_all only: zeroValues_def calculator_values.select_convs)

text \<open>
  Claim C1, as stated, fails: on \<open>zeroValues\<close> the four results are not all 0, and
  neither \<open>totalBenefit\<close> nor \<open>costSaving\<close> is.
\<close>

theorem calculateBenefits_zeroValues_not_all_zero:
  "\<not> (totalBenefit (calculateBenefits zeroValues) = Num 0
      \<and> costSaving (calculateBenefits zeroValues) = Num 0
      \<and> revenueSaving (calculateBenefits zeroValues) = Num 0
      \<and> riskSaving (calculateBenefits zeroValues) = Num 0)
   \<and> totalBenefit (calculateBenefits zeroValues) \<noteq> Num 0
   \<and> costSaving (calculateBenefits zeroValues) \<noteq> Num 0"
  by (simp add: benefits_zeroValues)

text \<open>
  Claim C2. For every parameter object, \<open>costSaving\<close> is the legacy total minus the
  platform total, where the two totals are written out from the parameters: the legacy
  total is build + build * (maintenance % / 100) + partners * transactions * 12 * fee +
  compliance + partners * transactions * 12 * (legacy error % / 100) * penalty, the
  platform total is (10000 + partners * 1000) + partners * transactions * 12 * 0.01 +
  compliance * 0.4 + partners * transactions * 12 * (platform error % / 100) * penalty.
  The equality is exact: both sides are the same binary64 value.
\<close>

theorem costSaving_legacy_minus_platform:
  "costSaving (calculateBenefits v) =
   js_sub
    (js_add (js_add (js_add (js_add
       (js_mul (num_partners v) (int_build_cost_per_partner v))
       (js_mul (js_mul (num_partners v) (int_build_cost_per_partner v))
               (js_div (int_maint_pct v) (Num 100))))
       (js_mul (js_mul (js_mul (num_partners v) (avg_tx_per_partner v)) (Num 12))
               (api_fee_per_tx v)))
       (compliance_cost_annual v))
       (js_mul (js_mul (js_mul (js_mul (num_partners v) (avg_tx_per_partner v)) (Num 12))
                       (js_div (error_rate_legacy v) (Num 100)))
               (error_penalty_rate v)))
    (js_add (js_add (js_add
       (js_add (Num 10000) (js_mul (num_partners v) (Num 1000)))
       (js_mul (js_mul (js_mul (num_partners v) (avg_tx_per_partner v)) (Num 12))
               (js_lit (1 / 100))))
       (js_mul (compliance_cost_annual v) (js_lit (4 / 10))))
       (js_mul (js_mul (js_mul (js_mul (num_partners v) (avg_tx_per_partner v)) (Num 12))
                       (js_div (error_rate_platform v) (Num 100)))
               (error_penalty_rate v)))"
  by (simp only: calculateBenefits_def calculateLegacyCosts_def calculatePlatformCosts_def
        Let_def costs.select_convs roi_results.select_convs)

text \<open>
  Claim C3. For every parameter object the returned \<open>totalBenefit\<close> is
  \<open>costSaving + revenueSaving + riskSaving\<close>. The code adds \<open>revenue_uplift\<close> and
  \<open>cost_saving\<close> in the other order; the sum of two numbers does not depend on it.
\<close>

theorem totalBenefit_sum_of_savings:
  "totalBenefit (calculateBenefits v) =
   js_add (js_add (costSaving (calculateBenefits v)) (revenueSaving (calculateBenefits v)))
          (riskSaving (calculateBenefits v))"
  by (simp only: calculateBenefits_def Let_def roi_results.select_convs
        js_add_commute [of "js_sub x y" for x y])

text \<open>
  Claim C4, as amended. For every parameter object, \<open>revenueSaving\<close> is
  \<open>num_partners * daily_revenue_per_partner * (onboard_days_legacy - onboard_days_platform)\<close>
  and enters \<open>totalBenefit = revenueSaving + costSaving + riskSaving\<close> as it is: nothing
  is clamped. When the platform onboards more slowly than the legacy process, the time
  saved is negative. The revenue saving is then negative if \<open>num_partners\<close> and
  \<open>daily_revenue_per_partner\<close> are both at least 1; if their product is merely positive
  it is negative or, when the product with the time saved underflows, a negative zero;
  and it is a zero, not a negative number, when \<open>num_partners\<close> is 0 and the other two
  factors are finite. The onboarding days are binary64 values, as every number of a
  running program is.
\<close>

theorem revenueSaving_not_clamped:
  "revenueSaving (calculateBenefits v)
     = js_mul (js_mul (num_partners v) (daily_revenue_per_partner v))
              (js_sub (onboard_days_legacy v) (onboard_days_platform v))
   \<and> totalBenefit (calculateBenefits v)
       = js_add (js_add (revenueSaving (calculateBenefits v)) (costSaving (calculateBenefits v)))
                (riskSaving (calculateBenefits v))
   \<and> (is_double (onboard_days_legacy v) \<and> is_double (onboard_days_platform v)
        \<and> js_less (onboard_days_legacy v) (onboard_days_platform v)
       \<longrightarrow> js_less (js_sub (onboard_days_legacy v) (onboard_days_platform v)) (Num 0))
   \<and> (is_double (onboard_days_legacy v) \<and> is_double (onboard_days_platform v)
        \<and> js_less (onboard_days_legacy v) (onboard_days_platform v)
        \<and> num_partners v = Num a \<and> 1 \<le> a \<and> daily_revenue_per_partner v = Num b \<and> 1 \<le> b
       \<longrightarrow> js_less (revenueSaving (calculateBenefits v)) (Num 0))
   \<and> (js_less (js_sub (onboard_days_legacy v) (onboard_days_platform v)) (Num 0)
        \<and> js_less (Num 0) (js_mul (num_partners v) (daily_revenue_per_partner v))
       \<longrightarrow> js_less (revenueSaving (calculateBenefits v)) (Num 0)
           \<or> revenueSaving (calculateBenefits v) = NegZero)
   \<and> (is_zero (num_partners v)
        \<and> daily_revenue_per_partner v \<noteq> NaN \<and> \<not> is_inf (daily_revenue_per_partner v)
        \<and> js_sub (onboard_days_legacy v) (onboard_days_platform v) \<noteq> NaN
        \<and> \<not> is_inf (js_sub (onboard_days_legacy v) (onboard_days_platform v))
       \<longrightarrow> is_zero (revenueSaving (calculateBenefits v)))"
proof -
  let ?t = "js_sub (onboard_days_legacy v) (onboard_days_platform v)"
  let ?p = "js_mul (num_partners v) (daily_revenue_per_partner v)"
  have rev: "revenueSaving (calculateBenefits v) = js_mul ?p ?t"
    by (simp only: calculateBenefits_def Let_def roi_results.select_convs)
  have tot: "totalBenefit (calculateBenefits v)
       = js_add (js_add (revenueSaving (calculateBenefits v)) (costSaving (calculateBenefits v)))
                (riskSaving (calculateBenefits v))"
    by (simp only: calculateBenefits_def Let_def roi_results.select_convs)
  have time: "js_less ?t (Num 0)"
    if "is_double (onboard_days_legacy v)" "is_double (onboard_days_platform v)"
       "js_less (onboard_days_legacy v) (onboard_days_platform v)"
    using that by (intro below_neg_min_less_zero js_sub_less)
  have strict: "js_less (js_mul ?p ?t) (Num 0)"
    if "is_double (onboard_days_legacy v)" "is_double (onboard_days_platform v)"
       "js_less (onboard_days_legacy v) (onboard_days_platform v)"
       "num_partners v = Num a" "1 \<le> a" "daily_revenue_per_partner v = Num b" "1 \<le> b"
  proof (rule js_mul_at_least_one_below_neg_min)
    show "?p = PosInfinity \<or> (\<exists>c. ?p = Num c \<and> 1 \<le> c)"
      using js_mul_at_least_one [OF that(5,7)] by (simp only: that(4,6))
    show "?t = NegInfinity \<or> (\<exists>r. ?t = Num r \<and> r \<le> - pow2 (- 1074))"
      using that(1-3) by (rule js_sub_less)
  qed
  have weak: "js_less (js_mul ?p ?t) (Num 0) \<or> js_mul ?p ?t = NegZero"
    if "js_less ?t (Num 0)" "js_less (Num 0) ?p"
    using that(2,1) by (rule js_mul_pos_neg)
  have zero: "is_zero (js_mul ?p ?t)"
    if "is_zero (num_partners v)" "daily_revenue_per_partner v \<noteq> NaN"
       "\<not> is_inf (daily_revenue_per_partner v)" "?t \<noteq> NaN" "\<not> is_inf ?t"
  proof -
    have "is_zero ?p"
      using that(1-3)
      by (cases "num_partners v") (simp_all add: js_mul_def signed_zero_def)
    then show ?thesis
      using that(4,5) by (cases ?p) (simp_all add: js_mul_def signed_zero_def)
  qed
  from tot time strict weak zero show ?thesis
    unfolding rev by blast
qed

text \<open>
  Claim C4, witness: the default preset with the onboarding days exchanged for 5
  (legacy) and 30 (platform). The revenue saving is \<open>5 * 2000 * (5 - 30) = -250000\<close>, and
  the total benefit \<open>-250000 + 129900 + 22500 = -97600\<close> carries it unchanged.
\<close>

theorem revenueSaving_not_clamped_witness:
  "is_double (onboard_days_legacy slowPlatformValues)
   \<and> is_double (onboard_days_platform slowPlatformValues)
   \<and> js_less (onboard_days_legacy slowPlatformValues) (onboard_days_platform slowPlatformValues)
   \<and> num_partners slowPlatformValues = Num 5 \<and> (1::rat) \<le> 5
   \<and> daily_revenue_per_partner slowPlatformValues = Num 2000 \<and> (1::rat) \<le> 2000
   \<and> js_less (revenueSaving (calculateBenefits slowPlatformValues)) (Num 0)
   \<and> revenueSaving (calculateBenefits slowPlatformValues) = Num (- 250000)
   \<and> totalBenefit (calculateBenefits slowPlatformValues) = Num (- 97600)"
proof -
  note c4 = revenueSaving_not_clamped [of slowPlatformValues 5 2000]
  have fields:
    "onboard_days_legacy slowPlatformValues = Num 5"
    "onboard_days_platform slowPlatformValues = Num 30"
    "num_partners slowPlatformValues = Num 5"
    "daily_revenue_per_partner slowPlatformValues = Num 2000"
    by (simp_all add: slowPlatformValues_def defaultValues_def)
  have hyps:
    "is_double (onboard_days_legacy slowPlatformValues)"
    "is_double (onboard_days_platform slowPlatformValues)"
    "js_less (onboard_days_legacy slowPlatformValues) (onboard_days_platform slowPlatformValues)"
    by (simp_all only: fields double_5 double_30 less_5_30)
  have ones: "(1::rat) \<le> 5" "(1::rat) \<le> 2000"
    by simp_all
  have negative: "js_less (revenueSaving (calculateBenefits slowPlatformValues)) (Num 0)"
    using c4 [THEN conjunct2, THEN conjunct2, THEN conjunct2, THEN conjunct1]
      hyps fields(3,4) ones by blast
  have costs:
    "calculateLegacyCosts slowPlatformValues = calculateLegacyCosts defaultValues"
    "calculatePlatformCosts slowPlatformValues = calculatePlatformCosts defaultValues"
    by (simp_all add: slowPlatformValues_def calculateLegacyCosts_def calculatePlatformCosts_def)
  have revenue: "revenueSaving (calculateBenefits slowPlatformValues) = Num (- 250000)"
    using c4 [THEN conjunct1] by (simp only: fields mul_5_2000 sub_5_30 mul_10000_neg_25)
  have "costSaving (calculateBenefits slowPlatformValues) = Num 129900"
    "riskSaving (calculateBenefits slowPlatformValues) = Num 22500"
    by (simp_all only: calculateBenefits_def Let_def roi_results.select_convs costs
          legacy_default platform_default costs.select_convs sub_170000_40100 sub_27000_4500)
  with revenue have total: "totalBenefit (calculateBenefits slowPlatformValues) = Num (- 97600)"
    using c4 [THEN conjunct2, THEN conjunct1]
    by (simp only: add_neg_250000_129900 add_neg_120100_22500)
  from hyps fields(3,4) ones negative revenue total show ?thesis
    by (intro conjI)
qed

text \<open>
  Claim C4, as stated, fails: with no partner, 5 legacy and 30 platform onboarding days,
  the platform is the slower one and the time saved is negative, but the revenue saving
  \<open>0 * 2000 * (5 - 30)\<close> is a zero and not a negative number.
\<close>

theorem revenueSaving_no_partner_not_negative:
  "js_greater (onboard_days_platform noPartnerValues) (onboard_days_legacy noPartnerValues)
   \<and> js_less (js_sub (onboard_days_legacy noPartnerValues)
                      (onboard_days_platform noPartnerValues)) (Num 0)
   \<and> is_zero (revenueSaving (calculateBenefits noPartnerValues))
   \<and> \<not> js_less (revenueSaving (calculateBenefits noPartnerValues)) (Num 0)"
proof -
  have fields:
    "onboard_days_legacy noPartnerValues = Num 5"
    "onboard_days_platform noPartnerValues = Num 30"
    "num_partners noPartnerValues = Num 0"
    "daily_revenue_per_partner noPartnerValues = Num 2000"
    by (simp_all add: noPartnerValues_def defaultValues_def)
  have "revenueSaving (calculateBenefits noPartnerValues) = NegZero"
    by (simp only: calculateBenefits_def Let_def roi_results.select_convs fields
          mul_0_2000 sub_5_30 mul_0_neg_25)
  then show ?thesis
    by (simp add: fields js_greater_def less_5_30 sub_5_30 less_neg_25_0 not_less_NegZero_0)
qed

text \<open>
  Claim C5. On the default preset \<open>calculateBenefits\<close> yields exactly
  \<open>costSaving = 129900\<close> (legacy total 170000 minus platform total 40100),
  \<open>revenueSaving = 250000\<close>, \<open>riskSaving = 22500\<close> and \<open>totalBenefit = 402400\<close>:
  no rounding error is left in any of the figures.
\<close>

theorem default_preset_results:
  "num_partners defaultValues = Num 5 \<and> avg_tx_per_partner defaultValues = Num 1000
   \<and> int_build_cost_per_partner defaultValues = Num 15000
   \<and> int_maint_pct defaultValues = Num 20 \<and> api_fee_per_tx defaultValues = js_lit (5 / 100)
   \<and> compliance_cost_annual defaultValues = Num 50000
   \<and> error_penalty_rate defaultValues = Num 15 \<and> error_rate_legacy defaultValues = Num 3
   \<and> error_rate_platform defaultValues = js_lit (5 / 10)
   \<and> onboard_days_legacy defaultValues = Num 30 \<and> onboard_days_platform defaultValues = Num 5
   \<and> daily_revenue_per_partner defaultValues = Num 2000
   \<and> total (calculateLegacyCosts defaultValues) = Num 170000
   \<and> total (calculatePlatformCosts defaultValues) = Num 40100
   \<and> costSaving (calculateBenefits defaultValues) = Num 129900
   \<and> revenueSaving (calculateBenefits defaultValues) = Num 250000
   \<and> riskSaving (calculateBenefits defaultValues) = Num 22500
   \<and> totalBenefit (calculateBenefits defaultValues) = Num 402400"
  by (simp add: benefits_default legacy_default platform_default)
     (simp add: defaultValues_def)

section \<open>Theorems about the event handlers and the rendering\<close>

text \<open>
  Claim C6. For every property name and every text of the input control,
  \<open>handleInputChange\<close> stores \<open>parseFloat(value) || 0\<close> under that name: the parsed
  number, and 0 when the text does not parse (NaN), so that NaN is never stored (a parsed
  zero of either sign is stored as 0 as well). Every other property keeps its value; in
  particular, right after the conservative preset was selected, every other property
  still has its conservative value. The scenario becomes \<open>custom\<close> whatever was
  stored, and the results and the selected metric are left alone.
\<close>

theorem handleInputChange_stores_parsed_number:
  "get_prop name (calculatorValues (handleInputChange parseFloat name value s))
     = Some (js_or (parseFloat value) (Num 0))
   \<and> (\<forall>n. n \<noteq> name \<longrightarrow>
         get_prop n (calculatorValues (handleInputChange parseFloat name value s))
           = get_prop n (calculatorValues s))
   \<and> scenario (handleInputChange parseFloat name value s) = ''custom''
   \<and> js_or (parseFloat value) (Num 0) \<noteq> NaN
   \<and> (parseFloat value = NaN \<longrightarrow> js_or (parseFloat value) (Num 0) = Num 0)
   \<and> (is_zero (parseFloat value) \<longrightarrow> js_or (parseFloat value) (Num 0) = Num 0)
   \<and> (js_truthy (parseFloat value) \<longrightarrow> js_or (parseFloat value) (Num 0) = parseFloat value)
   \<and> (\<forall>n. n \<noteq> name \<longrightarrow>
         get_prop n (calculatorValues (handleInputChange parseFloat name value
                        (handleScenarioChange ''conservative'' s)))
           = get_prop n scenarios_conservative)
   \<and> roiResults (handleInputChange parseFloat name value s) = roiResults s
   \<and> selectedMetric (handleInputChange parseFloat name value s) = selectedMetric s"
  by (simp add: handleInputChange_def handleScenarioChange_def get_set_prop_same
        get_set_prop_other js_or_zero_cases js_truthy_def)

text \<open>
  Claim C6, witness: with a \<open>parseFloat\<close> that reads \<open>500\<close> and fails on the empty
  text. After the conservative preset, clearing the partners field stores 0 and leaves
  the transactions at 500; typing the preset's own 500 into the transactions field
  stores 500, leaves the partners at 3 and still makes the scenario \<open>custom\<close>.
\<close>

theorem handleInputChange_stores_parsed_number_witness:
  "(\<lambda>t. if t = ''500'' then Num 500 else NaN) [] = NaN
   \<and> get_prop ''num_partners'' (calculatorValues
      (handleInputChange (\<lambda>t. if t = ''500'' then Num 500 else NaN) ''num_partners'' []
         (handleScenarioChange ''conservative'' initial_state))) = Some (Num 0)
   \<and> get_prop ''avg_tx_per_partner'' (calculatorValues
      (handleInputChange (\<lambda>t. if t = ''500'' then Num 500 else NaN) ''num_partners'' []
         (handleScenarioChange ''conservative'' initial_state))) = Some (Num 500)
   \<and> get_prop ''avg_tx_per_partner'' (calculatorValues
      (handleInputChange (\<lambda>t. if t = ''500'' then Num 500 else NaN) ''avg_tx_per_partner''
         ''500'' (handleScenarioChange ''conservative'' initial_state))) = Some (Num 500)
   \<and> get_prop ''num_partners'' (calculatorValues
      (handleInputChange (\<lambda>t. if t = ''500'' then Num 500 else NaN) ''avg_tx_per_partner''
         ''500'' (handleScenarioChange ''conservative'' initial_state))) = Some (Num 3)
   \<and> scenario
      (handleInputChange (\<lambda>t. if t = ''500'' then Num 500 else NaN) ''avg_tx_per_partner''
         ''500'' (handleScenarioChange ''conservative'' initial_state)) = ''custom''"
proof -
  let ?pf = "\<lambda>t. if t = ''500'' then Num 500 else NaN"
  let ?s = "handleScenarioChange ''conservative'' initial_state"
  note a = handleInputChange_stores_parsed_number [of "''num_partners''" ?pf "[]" initial_state]
  note b = handleInputChange_stores_parsed_number
             [of "''avg_tx_per_partner''" ?pf "''500''" initial_state]
  note a' = handleInputChange_stores_parsed_number [of "''num_partners''" ?pf "[]" ?s]
  note b' = handleInputChange_stores_parsed_number [of "''avg_tx_per_partner''" ?pf "''500''" ?s]
  have nan: "?pf [] = NaN"
    by simp
  have truthy: "js_truthy (?pf ''500'')"
    by (simp add: js_truthy_def)
  have a_stored: "js_or (?pf []) (Num 0) = Num 0"
    using a [THEN conjunct2, THEN conjunct2, THEN conjunct2, THEN conjunct2, THEN conjunct1] nan
    by (rule mp)
  have b_stored: "js_or (?pf ''500'') (Num 0) = ?pf ''500''"
    using b [THEN conjunct2, THEN conjunct2, THEN conjunct2, THEN conjunct2, THEN conjunct2,
             THEN conjunct2, THEN conjunct1] truthy
    by (rule mp)
  have conservative_tx: "get_prop ''avg_tx_per_partner'' scenarios_conservative = Some (Num 500)"
    by (simp add: get_prop_def scenarios_conservative_def)
  have conservative_partners: "get_prop ''num_partners'' scenarios_conservative = Some (Num 3)"
    by (simp add: get_prop_def scenarios_conservative_def)
  have 1: "get_prop ''num_partners'' (calculatorValues
             (handleInputChange ?pf ''num_partners'' [] ?s)) = Some (Num 0)"
    using a' [THEN conjunct1] a_stored by simp
  have "''avg_tx_per_partner'' \<noteq> ''num_partners''"
    by simp
  with a [THEN conjunct2, THEN conjunct2, THEN conjunct2, THEN conjunct2, THEN conjunct2,
          THEN conjunct2, THEN conjunct2, THEN conjunct1, THEN spec,
          of "''avg_tx_per_partner''"]
  have "get_prop ''avg_tx_per_partner'' (calculatorValues
          (handleInputChange ?pf ''num_partners'' [] ?s))
        = get_prop ''avg_tx_per_partner'' scenarios_conservative"
    by (rule mp)
  with conservative_tx
  have 2: "get_prop ''avg_tx_per_partner'' (calculatorValues
             (handleInputChange ?pf ''num_partners'' [] ?s)) = Some (Num 500)"
    by simp
  have "?pf ''500'' = Num 500"
    by simp
  with b_stored have "js_or (?pf ''500'') (Num 0) = Num 500"
    by simp
  with b' [THEN conjunct1]
  have 3: "get_prop ''avg_tx_per_partner'' (calculatorValues
             (handleInputChange ?pf ''avg_tx_per_partner'' ''500'' ?s)) = Some (Num 500)"
    by simp
  have "''num_partners'' \<noteq> ''avg_tx_per_partner''"
    by simp
  with b [THEN conjunct2, THEN conjunct2, THEN conjunct2, THEN conjunct2, THEN conjunct2,
          THEN conjunct2, THEN conjunct2, THEN conjunct1, THEN spec, of "''num_partners''"]
  have "get_prop ''num_partners'' (calculatorValues
          (handleInputChange ?pf ''avg_tx_per_partner'' ''500'' ?s))
        = get_prop ''num_partners'' scenarios_conservative"
    by (rule mp)
  with conservative_partners
  have 4: "get_prop ''num_partners'' (calculatorValues
             (handleInputChange ?pf ''avg_tx_per_partner'' ''500'' ?s)) = Some (Num 3)"
    by simp
  have 5: "scenario (handleInputChange ?pf ''avg_tx_per_partner'' ''500'' ?s) = ''custom''"
    by (rule b' [THEN conjunct2, THEN conjunct2, THEN conjunct1])
  from nan 1 2 3 4 5 show ?thesis
    by (intro conjI)
qed

text \<open>
  Claim C7. For every state and every name among \<open>default\<close>, \<open>conservative\<close> and
  \<open>optimistic\<close>, \<open>handleScenarioChange\<close> replaces the parameters by the preset of that
  name, whatever they were, sets the scenario to the name and leaves the results (and the
  selected metric) unchanged: nothing is recomputed. The conservative and the optimistic
  preset differ from the default preset in \<open>num_partners\<close>, \<open>avg_tx_per_partner\<close> and
  \<open>daily_revenue_per_partner\<close> and in no other property.
\<close>

theorem handleScenarioChange_selects_preset:
  assumes "name \<in> {''default'', ''conservative'', ''optimistic''}"
  shows
  "calculatorValues (handleScenarioChange name s)
     = (if name = ''default'' then defaultValues
        else if name = ''conservative'' then scenarios_conservative
        else scenarios_optimistic)
   \<and> scenario (handleScenarioChange name s) = name
   \<and> roiResults (handleScenarioChange name s) = roiResults s
   \<and> selectedMetric (handleScenarioChange name s) = selectedMetric s
   \<and> isMenuOpen (handleScenarioChange name s) = isMenuOpen s
   \<and> (\<forall>n. n \<notin> {''num_partners'', ''avg_tx_per_partner'', ''daily_revenue_per_partner''} \<longrightarrow>
         get_prop n scenarios_conservative = get_prop n defaultValues
         \<and> get_prop n scenarios_optimistic = get_prop n defaultValues)
   \<and> num_partners defaultValues = Num 5
   \<and> num_partners scenarios_conservative = Num 3
   \<and> num_partners scenarios_optimistic = Num 10
   \<and> avg_tx_per_partner defaultValues = Num 1000
   \<and> avg_tx_per_partner scenarios_conservative = Num 500
   \<and> avg_tx_per_partner scenarios_optimistic = Num 2000
   \<and> daily_revenue_per_partner defaultValues = Num 2000
   \<and> daily_revenue_per_partner scenarios_conservative = Num 1000
   \<and> daily_revenue_per_partner scenarios_optimistic = Num 3000"
proof -
  have "handleScenarioChange name s =
     s \<lparr> scenario := name,
         calculatorValues := (if name = ''default'' then defaultValues
                              else if name = ''conservative'' then scenarios_conservative
                              else scenarios_optimistic) \<rparr>"
    using assms by (elim insertE emptyE) (simp_all add: handleScenarioChange_def)
  moreover have "get_prop n scenarios_conservative = get_prop n defaultValues
      \<and> get_prop n scenarios_optimistic = get_prop n defaultValues"
    if "n \<notin> {''num_partners'', ''avg_tx_per_partner'', ''daily_revenue_per_partner''}" for n
    using that
    by (simp add: get_prop_def scenarios_conservative_def scenarios_optimistic_def)
  ultimately show ?thesis
    by (simp add: scenarios_conservative_def scenarios_optimistic_def defaultValues_def)
qed

text \<open>
  Claim C7, witness: from a state with computed results and edited parameters, selecting
  \<open>conservative\<close> installs the conservative preset and keeps the results of the
  default run.
\<close>

theorem handleScenarioChange_selects_preset_witness:
  "''conservative'' \<in> {''default'', ''conservative'', ''optimistic''}
   \<and> calculatorValues (handleScenarioChange ''conservative'' (handleCalculate initial_state))
       = scenarios_conservative
   \<and> scenario (handleScenarioChange ''conservative'' (handleCalculate initial_state))
       = ''conservative''
   \<and> totalBenefit (roiResults
        (handleScenarioChange ''conservative'' (handleCalculate initial_state))) = Num 402400
   \<and> get_prop ''int_maint_pct'' scenarios_conservative = get_prop ''int_maint_pct'' defaultValues"
  using handleScenarioChange_selects_preset
      [of "''conservative''" "handleCalculate initial_state"]
  by (simp add: handleCalculate_def initial_state_def benefits_default)

text \<open>
  Claim C8. The click on a metric card clears the selected metric when the card is the
  selected one and selects the card otherwise. From the collapsed state two clicks on
  the same card lead back to the collapsed state. The click commutes with
  \<open>handleCalculate\<close>: it neither reads nor writes the results, and \<open>handleCalculate\<close>
  neither reads nor writes the selected metric.
\<close>

theorem toggleMetricDetail_independent_of_results:
  "selectedMetric (toggleMetricDetail key s)
     = (if selectedMetric s = Some key then None else Some key)
   \<and> (selectedMetric s = None \<longrightarrow> toggleMetricDetail key (toggleMetricDetail key s) = s)
   \<and> toggleMetricDetail key (handleCalculate s) = handleCalculate (toggleMetricDetail key s)
   \<and> roiResults (toggleMetricDetail key s) = roiResults s
   \<and> calculatorValues (toggleMetricDetail key s) = calculatorValues s
   \<and> scenario (toggleMetricDetail key s) = scenario s
   \<and> toggleMetricDetail key (s \<lparr> roiResults := r \<rparr>) = (toggleMetricDetail key s) \<lparr> roiResults := r \<rparr>
   \<and> selectedMetric (handleCalculate s) = selectedMetric s
   \<and> handleCalculate (s \<lparr> selectedMetric := m \<rparr>) = (handleCalculate s) \<lparr> selectedMetric := m \<rparr>"
  by (simp add: toggleMetricDetail_def handleCalculate_def)

text \<open>
  Claim C8, witness: in the initial state no metric is selected, and two clicks on the
  cost-saving card restore it.
\<close>

theorem toggleMetricDetail_independent_of_results_witness:
  "selectedMetric initial_state = None
   \<and> toggleMetricDetail ''costSaving'' (toggleMetricDetail ''costSaving'' initial_state) = initial_state"
proof -
  note t = toggleMetricDetail_independent_of_results [of "''costSaving''" initial_state]
  have collapsed: "selectedMetric initial_state = None"
    by (simp add: initial_state_def)
  have "toggleMetricDetail ''costSaving'' (toggleMetricDetail ''costSaving'' initial_state) = initial_state"
    using t [THEN conjunct2, THEN conjunct1] collapsed by (rule mp)
  with collapsed show ?thesis
    by (intro conjI)
qed

text \<open>
  Claim C9. The grid of result cards, that is each of the four metric panels, is
  rendered if and only if \<open>roiResults.totalBenefit > 0\<close>. With a negative or zero
  total benefit (the initial all-zero results included) nothing of the grid is rendered,
  whatever the other three results are; with a positive one the grid holds the four
  cards with their figures, and the explanation of a card is expanded exactly when the
  card is the selected metric.
\<close>

theorem results_grid_iff_totalBenefit_positive:
  "(results_grid s \<noteq> []) = js_greater (totalBenefit (roiResults s)) (Num 0)
   \<and> (\<forall>key \<in> set metric_keys.
         (key \<in> set (map card_key (results_grid s)))
           = js_greater (totalBenefit (roiResults s)) (Num 0))
   \<and> (js_less (totalBenefit (roiResults s)) (Num 0) \<or> is_zero (totalBenefit (roiResults s))
        \<longrightarrow> results_grid s = [])
   \<and> (js_greater (totalBenefit (roiResults s)) (Num 0)
        \<longrightarrow> map card_key (results_grid s) = metric_keys
          \<and> map card_value (results_grid s)
              = [Some (totalBenefit (roiResults s)), Some (costSaving (roiResults s)),
                 Some (revenueSaving (roiResults s)), Some (riskSaving (roiResults s))])
   \<and> (\<forall>c \<in> set (results_grid s). card_expanded c = (selectedMetric s = Some (card_key c)))
   \<and> results_grid initial_state = []"
proof -
  let ?pos = "js_greater (totalBenefit (roiResults s)) (Num 0)"
  have shown: "(results_grid s \<noteq> []) = ?pos"
    by (simp add: results_grid_def metric_keys_def)
  have keys: "map card_key (results_grid s) = metric_keys" if ?pos
    using that by (simp add: results_grid_def comp_def)
  have each: "(key \<in> set (map card_key (results_grid s))) = ?pos" if "key \<in> set metric_keys" for key
  proof (cases ?pos)
    case True
    then show ?thesis using that keys by simp
  next
    case False
    then show ?thesis by (simp add: results_grid_def)
  qed
  have "\<not> js_greater x (Num 0)" if "js_less x (Num 0) \<or> is_zero x" for x
    using that by (cases x) (auto simp add: js_greater_def js_less_def)
  then have hidden: "results_grid s = []"
    if "js_less (totalBenefit (roiResults s)) (Num 0) \<or> is_zero (totalBenefit (roiResults s))"
    using that by (simp add: results_grid_def)
  have figures: "map card_value (results_grid s)
              = [Some (totalBenefit (roiResults s)), Some (costSaving (roiResults s)),
                 Some (revenueSaving (roiResults s)), Some (riskSaving (roiResults s))]" if ?pos
    using that by (simp add: results_grid_def metric_keys_def result_of_key_def)
  have expanded: "card_expanded c = (selectedMetric s = Some (card_key c))"
    if "c \<in> set (results_grid s)" for c
    using that by (auto simp add: results_grid_def split: if_splits)
  have initially: "results_grid initial_state = []"
    by (simp add: results_grid_def initial_state_def js_greater_def js_less_def)
  from shown each hidden keys figures expanded initially show ?thesis
    by blast
qed

text \<open>
  Claim C9, witness: after a calculation on all-zero parameters the total benefit is
  negative and the grid is not rendered although \<open>costSaving\<close> holds a computed value;
  after a calculation on the default preset the total benefit is positive and the grid
  is rendered.
\<close>

theorem results_grid_iff_totalBenefit_positive_witness:
  "js_less (totalBenefit (roiResults
       (handleCalculate (initial_state \<lparr> calculatorValues := zeroValues \<rparr>)))) (Num 0)
   \<and> costSaving (roiResults
       (handleCalculate (initial_state \<lparr> calculatorValues := zeroValues \<rparr>))) = Num (- 10000)
   \<and> results_grid (handleCalculate (initial_state \<lparr> calculatorValues := zeroValues \<rparr>)) = []
   \<and> js_greater (totalBenefit (roiResults (handleCalculate initial_state))) (Num 0)
   \<and> map card_key (results_grid (handleCalculate initial_state)) = metric_keys"
  using
    results_grid_iff_totalBenefit_positive
      [of "handleCalculate (initial_state \<lparr> calculatorValues := zeroValues \<rparr>)"]
    results_grid_iff_totalBenefit_positive [of "handleCalculate initial_state"]
  by (simp add: handleCalculate_def initial_state_def benefits_zeroValues benefits_default
        js_greater_def js_less_def)

text \<open>
  Claim C10. For every state and every scenario name other than \<open>conservative\<close> and
  \<open>optimistic\<close> (so also for \<open>custom\<close> or any other text), \<open>handleScenarioChange\<close>
  installs the default preset and stores the name as given; no name is rejected.
\<close>

theorem handleScenarioChange_other_name_default:
  assumes "name \<noteq> ''conservative''" "name \<noteq> ''optimistic''"
  shows "handleScenarioChange name s
           = s \<lparr> scenario := name, calculatorValues := defaultValues \<rparr>"
  using assms by (simp add: handleScenarioChange_def)

text \<open>
  Claim C10, witness: the name \<open>custom\<close>, after the optimistic preset was selected.
\<close>

theorem handleScenarioChange_other_name_default_witness:
  "''custom'' \<noteq> ''conservative'' \<and> ''custom'' \<noteq> ''optimistic''
   \<and> calculatorValues (handleScenarioChange ''custom''
        (handleScenarioChange ''optimistic'' initial_state)) = defaultValues
   \<and> scenario (handleScenarioChange ''custom''
        (handleScenarioChange ''optimistic'' initial_state)) = ''custom''"
  using handleScenarioChange_other_name_default
      [of "''custom''" "handleScenarioChange ''optimistic'' initial_state"]
  by simp

end
